theory Spec2Isabelle
  imports Main
begin

section \<open>Conversation history (chatReply)\<close>

text \<open>
  A history entry is the object literal \<^verbatim>\<open>{ role, content }\<close>.  The history of a
  connection is one JavaScript array, created when the connection opens and mutated in
  place by \<^verbatim>\<open>chatReply\<close>; the model passes the array's contents in and out.
\<close>

record message =
  role :: string
  content :: string

definition user_message :: "string \<Rightarrow> message" where
  "user_message text = \<lparr>role = ''user'', content = text\<rparr>"

definition assistant_message :: "string \<Rightarrow> message" where
  "assistant_message reply = \<lparr>role = ''assistant'', content = reply\<rparr>"

text \<open>
  \<^verbatim>\<open>Array.prototype.slice(begin)\<close> and \<^verbatim>\<open>Array.prototype.splice(start, deleteCount, ...items)\<close>
  on integer arguments: a negative \<^verbatim>\<open>begin\<close>/\<^verbatim>\<open>start\<close> counts from the end, both are clamped
  to the array, and \<^verbatim>\<open>deleteCount\<close> is clamped to what is left after \<^verbatim>\<open>start\<close>.
  \<open>js_splice\<close> returns the array as it is after the call.
\<close>

definition js_index :: "'a list \<Rightarrow> int \<Rightarrow> nat" where
  "js_index xs i =
     (if i < 0 then nat (max (int (length xs) + i) 0) else min (nat i) (length xs))"

definition js_slice :: "'a list \<Rightarrow> int \<Rightarrow> 'a list" where
  "js_slice xs begin = drop (js_index xs begin) xs"

definition js_splice :: "'a list \<Rightarrow> int \<Rightarrow> int \<Rightarrow> 'a list \<Rightarrow> 'a list" where
  "js_splice xs start deleteCount items =
     (let s = js_index xs start;
          d = min (nat (max deleteCount 0)) (length xs - s)
      in take s xs @ items @ drop (s + d) xs)"

text \<open>
  \<^verbatim>\<open>while (history.length > 21) { history.splice(1, 1); }\<close>
\<close>

function shift_oldest :: "message list \<Rightarrow> message list" where
  "shift_oldest history =
     (if length history > 21 then shift_oldest (js_splice history 1 1 []) else history)"
  by pat_completeness auto
termination
  by (relation "measure length") (auto simp: js_splice_def js_index_def Let_def)

text \<open>
  The prune block of \<^verbatim>\<open>chatReply\<close>:
  \<^verbatim>\<open>
  if (history.length > 11) {
    const recent = history.slice(history.length - 10);
    history.splice(1, history.length - 1 - 10, ...recent);
    while (history.length > 21) { history.splice(1, 1); }
  }
  \<close>
\<close>

definition prune :: "message list \<Rightarrow> message list" where
  "prune history =
     (if length history > 11 then
        (let recent = js_slice history (int (length history) - 10);
             history1 = js_splice history 1 (int (length history) - 1 - 10) recent
         in shift_oldest history1)
      else history)"

text \<open>
  What the Language Provider call of \<^verbatim>\<open>chatReply\<close> yields: either \<^verbatim>\<open>fetch\<close> or
  \<^verbatim>\<open>resp.json()\<close> rejects, or there is a response with its \<^verbatim>\<open>ok\<close> flag and the value of
  \<^verbatim>\<open>json.choices?.[0]?.message?.content\<close> (\<open>None\<close> when that chain is undefined or not
  a string).
\<close>

datatype chat_resp = ChatRejects | ChatResp bool "string option"

datatype error = FetchError

text \<open>
  \<^verbatim>\<open>chatReply(text, history)\<close> up to its \<^verbatim>\<open>await fetch\<close>: the user message is pushed.
\<close>

definition chatReply_push :: "string \<Rightarrow> message list \<Rightarrow> message list" where
  "chatReply_push text history = history @ [user_message text]"

definition reply_or_default :: "string option \<Rightarrow> string" where
  "reply_or_default c =
     (case c of None \<Rightarrow> ''Sorry, I missed that.''
      | Some s \<Rightarrow> if s = [] then ''Sorry, I missed that.'' else s)"

text \<open>
  \<^verbatim>\<open>chatReply\<close> from the provider's answer on: the history afterwards and what the
  call returns (\<open>Inl\<close> when it throws).
\<close>

definition chatReply_resume :: "chat_resp \<Rightarrow> message list \<Rightarrow> message list \<times> (error + string)" where
  "chatReply_resume resp history =
     (case resp of
        ChatRejects \<Rightarrow> (history, Inl FetchError)
      | ChatResp ok c \<Rightarrow>
          if \<not> ok then (history, Inr ''Sorry, I had a brain fart.'')
          else (let reply = reply_or_default c
                in (prune (history @ [assistant_message reply]), Inr reply)))"

definition chatReply :: "string \<Rightarrow> message list \<Rightarrow> chat_resp \<Rightarrow> message list \<times> (error + string)" where
  "chatReply text history resp = chatReply_resume resp (chatReply_push text history)"

text \<open>
  The history store as the sequence of operations the code performs on it: a push
  (\<open>Append\<close>) or the prune block (\<open>Prune\<close>).
\<close>

datatype history_op = Append message | Prune

fun apply_op :: "history_op \<Rightarrow> message list \<Rightarrow> message list" where
  "apply_op (Append m) history = history @ [m]"
| "apply_op Prune history = prune history"

fun apply_ops :: "history_op list \<Rightarrow> message list \<Rightarrow> message list" where
  "apply_ops [] history = history"
| "apply_ops (x # xs) history = apply_ops xs (apply_op x history)"

section \<open>The connection handler (wss.on('connection'))\<close>

text \<open>
  A media frame as the handler stores it: \<^verbatim>\<open>Buffer.from(payload, 'base64')\<close>.
\<close>

datatype buffer = FromBase64 string

text \<open>
  The value \<^verbatim>\<open>speakingUntil\<close> holds for a connection: a clock reading in milliseconds or
  the JavaScript number \<^verbatim>\<open>Infinity\<close>.
\<close>

datatype until = Finite nat | Infinity

text \<open>
  The temporary files, named by the template strings of the source; the number is the
  \<^verbatim>\<open>Date.now()\<close> reading in the name.  The three readings taken in a row when a pipeline
  run starts are one reading in the model.
\<close>

datatype path =
    InRaw nat | InWav nat | OutMp3 nat | OutMulaw nat
  | GreetMp3 nat | GreetMulaw nat | FallbackWav nat | FallbackMulaw nat

text \<open>
  File contents: the concatenated frames of an utterance, the body of a Synthesis
  Provider response, the generated 1000 Hz tone, and the output of an \<^verbatim>\<open>ffmpeg\<close>
  conversion of another file.  An outbound payload is the base64 text of a file's contents
  and is modelled by those contents.
\<close>

datatype audio = Concat "buffer list" | Body string | Sine | Ffmpeg audio

datatype outbound = MediaOut "string option" audio | MarkOut "string option" string

datatype call = WhisperSTT path | ChatFetch "message list" | ElevenTTS string path

text \<open>
  A handler activation suspended at an \<^verbatim>\<open>await\<close>: the greeting waiting for its 400 ms
  timer or for \<^verbatim>\<open>elevenTTS\<close>, and a pipeline run waiting for \<^verbatim>\<open>whisperSTT\<close>, for the
  \<^verbatim>\<open>fetch\<close> of \<^verbatim>\<open>chatReply\<close> or for \<^verbatim>\<open>elevenTTS\<close>.  Each carries the local constants it
  still needs (the \<^verbatim>\<open>streamSid\<close> of the start event, the stamp of its file names).
\<close>

datatype task =
    GreetDelay "string option" nat
  | GreetTTS "string option" nat
  | PipeSTT nat
  | PipeChat nat
  | PipeTTS nat

text \<open>
  The state both variants of the relay keep for one connection \<^verbatim>\<open>ws\<close>: its entries in the
  process-wide maps \<^verbatim>\<open>audioChunks\<close> and \<^verbatim>\<open>streamIds\<close> (\<open>None\<close>: the map has no entry), and
  what the handler does to the outside: files, messages sent on the socket, provider calls
  made, suspended activations.  This is all the state of \<^verbatim>\<open>server.js\<close>.
\<close>

record relay =
  audioChunks :: "buffer list option"
  streamIds :: "string option"
  files :: "path \<rightharpoonup> audio"
  sent :: "outbound list"
  calls :: "call list"
  tasks :: "task list"

text \<open>
  The richer variant adds the maps \<^verbatim>\<open>speakingUntil\<close> and \<^verbatim>\<open>conversationHistory\<close>.  The latter
  only ever holds the array created on connection, so its entry is the flag
  \<open>historyInMap\<close>, and the array \<open>history\<close> lives on when the entry is deleted.
\<close>

record world = relay +
  speakingUntil :: "until option"
  historyInMap :: bool
  history :: "message list"

text \<open>
  What a handler segment reads from outside: the clock, and for which output files an
  \<^verbatim>\<open>execSync('ffmpeg ...')\<close> exits non-zero although its input exists.
\<close>

record env =
  now :: nat
  ffmpeg_fails :: "path set"

datatype event = Start "string option" | Media string | Mark | Stop | Other

datatype stt_resp = SttRejects | SttResp bool "string option"

datatype tts_resp = TtsRejects | TtsResp bool string

datatype completion = Timer | Stt stt_resp | Chat chat_resp | Tts tts_resp

datatype input = Message event | Resume nat completion

definition connection :: "string \<Rightarrow> world" where
  "connection system_prompt =
     \<lparr>audioChunks = None, streamIds = None,
      files = Map.empty, sent = [], calls = [], tasks = [],
      speakingUntil = None, historyInMap = True,
      history = [\<lparr>role = ''system'', content = system_prompt\<rparr>]\<rparr>"

text \<open>
  \<^verbatim>\<open>execSync(`ffmpeg -i ${src} ... ${dst}`)\<close>: \<open>None\<close> when it throws.
\<close>

definition ffmpeg :: "env \<Rightarrow> path \<Rightarrow> path \<Rightarrow> (path \<rightharpoonup> audio) \<Rightarrow> (path \<rightharpoonup> audio) option" where
  "ffmpeg e src dst fs =
     (case fs src of
        None \<Rightarrow> None
      | Some a \<Rightarrow> if dst \<in> ffmpeg_fails e then None else Some (fs(dst \<mapsto> Ffmpeg a)))"

definition ffmpeg_sine :: "env \<Rightarrow> path \<Rightarrow> (path \<rightharpoonup> audio) \<Rightarrow> (path \<rightharpoonup> audio) option" where
  "ffmpeg_sine e dst fs = (if dst \<in> ffmpeg_fails e then None else Some (fs(dst \<mapsto> Sine)))"

text \<open>
  \<^verbatim>\<open>[...].forEach(p => { try { fs.unlinkSync(p); } catch {} })\<close>
\<close>

definition unlink_all :: "path list \<Rightarrow> (path \<rightharpoonup> audio) \<Rightarrow> (path \<rightharpoonup> audio)" where
  "unlink_all ps fs = fold (\<lambda>p f. f(p := None)) ps fs"

text \<open>
  The gate at the head of the media branch:
  \<^verbatim>\<open>speakingUntil.has(ws) && (until === Infinity || Date.now() < until)\<close>.
\<close>

definition muted :: "nat \<Rightarrow> until option \<Rightarrow> bool" where
  "muted t u =
     (case u of
        None \<Rightarrow> False
      | Some Infinity \<Rightarrow> True
      | Some (Finite until) \<Rightarrow> t < until)"

text \<open>
  The body of \<^verbatim>\<open>if (audioChunks.get(ws).length >= 60)\<close> after the buffer has been taken,
  up to \<^verbatim>\<open>await whisperSTT(wavPath)\<close>.  A throwing \<^verbatim>\<open>execSync\<close> lands in the \<^verbatim>\<open>catch\<close>,
  which only logs.  The lines are the same in both variants.
\<close>

definition start_pipeline :: "env \<Rightarrow> buffer list \<Rightarrow> 'a relay_scheme \<Rightarrow> 'a relay_scheme" where
  "start_pipeline e buffers w =
     (let fs1 = (files w)(InRaw (now e) \<mapsto> Concat buffers)
      in case ffmpeg e (InRaw (now e)) (InWav (now e)) fs1 of
           None \<Rightarrow> w\<lparr>files := fs1\<rparr>
         | Some fs2 \<Rightarrow>
             w\<lparr>files := fs2,
               calls := calls w @ [WhisperSTT (InWav (now e))],
               tasks := tasks w @ [PipeSTT (now e)]\<rparr>)"

text \<open>
  \<^verbatim>\<open>if (!audioChunks.has(ws)) audioChunks.set(ws, []);\<close> followed by
  \<^verbatim>\<open>audioChunks.get(ws)\<close>: the buffer the frame is pushed onto.
\<close>

definition buffered :: "'a relay_scheme \<Rightarrow> buffer list" where
  "buffered w = (case audioChunks w of None \<Rightarrow> [] | Some b \<Rightarrow> b)"

definition on_media :: "env \<Rightarrow> string \<Rightarrow> world \<Rightarrow> world" where
  "on_media e payload w =
     (if muted (now e) (speakingUntil w) then w
      else
        (let chunks = buffered w @ [FromBase64 payload]
         in if length chunks \<ge> 60
            then start_pipeline e chunks (w\<lparr>audioChunks := Some []\<rparr>)
            else w\<lparr>audioChunks := Some chunks\<rparr>))"

text \<open>
  The start branch up to \<^verbatim>\<open>await new Promise(r => setTimeout(r, 400))\<close>.
\<close>

definition on_start :: "env \<Rightarrow> string option \<Rightarrow> 'a relay_scheme \<Rightarrow> 'a relay_scheme" where
  "on_start e streamSid w =
     (let w1 = (case streamSid of
                  None \<Rightarrow> w
                | Some s \<Rightarrow> if s = [] then w else w\<lparr>streamIds := Some s\<rparr>)
      in w1\<lparr>tasks := tasks w1 @ [GreetDelay streamSid (now e)]\<rparr>)"

definition on_message :: "env \<Rightarrow> event \<Rightarrow> world \<Rightarrow> world" where
  "on_message e ev w =
     (case ev of
        Start streamSid \<Rightarrow> on_start e streamSid w
      | Media payload \<Rightarrow> on_media e payload w
      | Mark \<Rightarrow> w\<lparr>speakingUntil := Some (Finite (now e + 2000))\<rparr>
      | Stop \<Rightarrow> w\<lparr>audioChunks := None, streamIds := None, speakingUntil := None,
                 historyInMap := False\<rparr>
      | Other \<Rightarrow> w)"

text \<open>
  The inner \<^verbatim>\<open>try\<close> of the greeting's \<^verbatim>\<open>catch\<close>: generate the tone, convert it, send it.
\<close>

definition fallback_tone :: "env \<Rightarrow> string option \<Rightarrow> nat \<Rightarrow> 'a relay_scheme \<Rightarrow> 'a relay_scheme" where
  "fallback_tone e streamSid stamp w =
     (case ffmpeg_sine e (FallbackWav stamp) (files w) of
        None \<Rightarrow> w
      | Some fs1 \<Rightarrow>
          (case ffmpeg e (FallbackWav stamp) (FallbackMulaw stamp) fs1 of
             None \<Rightarrow> w\<lparr>files := fs1\<rparr>
           | Some fs2 \<Rightarrow>
               (case fs2 (FallbackMulaw stamp) of
                  None \<Rightarrow> w\<lparr>files := fs2\<rparr>
                | Some toneAudio \<Rightarrow>
                    w\<lparr>files := unlink_all [FallbackWav stamp, FallbackMulaw stamp] fs2,
                      sent := sent w @ [MediaOut streamSid toneAudio]\<rparr>)))"

text \<open>
  \<^verbatim>\<open>elevenTTS\<close> from the provider's answer on: a non-2xx answer is logged and the function
  returns without writing; \<open>None\<close> when \<^verbatim>\<open>fetch\<close> rejects.
\<close>

definition elevenTTS_resume :: "tts_resp \<Rightarrow> path \<Rightarrow> (path \<rightharpoonup> audio) \<Rightarrow> (path \<rightharpoonup> audio) option" where
  "elevenTTS_resume resp outPath fs =
     (case resp of
        TtsRejects \<Rightarrow> None
      | TtsResp ok body \<Rightarrow> if \<not> ok then Some fs else Some (fs(outPath \<mapsto> Body body)))"

text \<open>
  The greeting from the answer of \<^verbatim>\<open>elevenTTS\<close> on: the rest of the \<^verbatim>\<open>try\<close>, the \<^verbatim>\<open>catch\<close>
  with the fallback tone, the \<^verbatim>\<open>finally\<close>, and \<^verbatim>\<open>audioChunks.set(ws, [])\<close>.
\<close>

definition greeting_resume :: "env \<Rightarrow> string option \<Rightarrow> nat \<Rightarrow> tts_resp \<Rightarrow> world \<Rightarrow> world" where
  "greeting_resume e streamSid stamp resp w =
     (let w1 =
        (case elevenTTS_resume resp (GreetMp3 stamp) (files w) of
           None \<Rightarrow> fallback_tone e streamSid stamp w
         | Some fs1 \<Rightarrow>
             (case ffmpeg e (GreetMp3 stamp) (GreetMulaw stamp) fs1 of
                None \<Rightarrow> fallback_tone e streamSid stamp (w\<lparr>files := fs1\<rparr>)
              | Some fs2 \<Rightarrow>
                  (case fs2 (GreetMulaw stamp) of
                     None \<Rightarrow> fallback_tone e streamSid stamp (w\<lparr>files := fs2\<rparr>)
                   | Some mulawAudio \<Rightarrow>
                       w\<lparr>files := fs2,
                         sent := sent w @ [MediaOut streamSid mulawAudio],
                         speakingUntil := Some (Finite (now e + 2500))\<rparr>)));
          w2 = w1\<lparr>files := unlink_all [GreetMp3 stamp, GreetMulaw stamp] (files w1)\<rparr>
      in w2\<lparr>audioChunks := Some []\<rparr>)"

text \<open>
  The pipeline from the answer of \<^verbatim>\<open>whisperSTT\<close> on (\<^verbatim>\<open>json.text || ''\<close>, the
  empty-transcript guard) into \<^verbatim>\<open>chatReply\<close> up to its \<^verbatim>\<open>await fetch\<close>.  When the history
  entry is gone, \<^verbatim>\<open>history.push\<close> on \<^verbatim>\<open>undefined\<close> throws and the \<^verbatim>\<open>catch\<close> logs.  The
  result pairs the world with the activation's next suspension (\<open>None\<close>: it has ended).
\<close>

definition whisperSTT_result :: "stt_resp \<Rightarrow> error + string" where
  "whisperSTT_result resp =
     (case resp of
        SttRejects \<Rightarrow> Inl FetchError
      | SttResp ok text \<Rightarrow> Inr (case text of None \<Rightarrow> [] | Some s \<Rightarrow> s))"

definition pipeline_after_stt :: "nat \<Rightarrow> stt_resp \<Rightarrow> world \<Rightarrow> world \<times> task option" where
  "pipeline_after_stt stamp resp w =
     (case whisperSTT_result resp of
        Inl err \<Rightarrow> (w, None)
      | Inr transcript \<Rightarrow>
          if transcript = [] then (w, None)
          else if \<not> historyInMap w then (w, None)
          else
            (let h = chatReply_push transcript (history w)
             in (w\<lparr>history := h, calls := calls w @ [ChatFetch h]\<rparr>, Some (PipeChat stamp))))"

text \<open>
  The pipeline from the Language Provider's answer on: the rest of \<^verbatim>\<open>chatReply\<close>, then
  \<^verbatim>\<open>elevenTTS(replyText, mp3Path)\<close> up to its \<^verbatim>\<open>await fetch\<close>.
\<close>

definition pipeline_after_chat :: "nat \<Rightarrow> chat_resp \<Rightarrow> world \<Rightarrow> world \<times> task option" where
  "pipeline_after_chat stamp resp w =
     (case chatReply_resume resp (history w) of
        (h, Inl err) \<Rightarrow> (w\<lparr>history := h\<rparr>, None)
      | (h, Inr replyText) \<Rightarrow>
          (w\<lparr>history := h, calls := calls w @ [ElevenTTS replyText (OutMp3 stamp)]\<rparr>,
           Some (PipeTTS stamp)))"

text \<open>
  The pipeline from the Synthesis Provider's answer on: conversion, the two sends, the
  indefinite mute, the cleanup.  Every throw lands in the \<^verbatim>\<open>catch\<close>, which only logs.
\<close>

definition pipeline_after_tts :: "env \<Rightarrow> nat \<Rightarrow> tts_resp \<Rightarrow> world \<Rightarrow> world \<times> task option" where
  "pipeline_after_tts e stamp resp w =
     (case elevenTTS_resume resp (OutMp3 stamp) (files w) of
        None \<Rightarrow> (w, None)
      | Some fs1 \<Rightarrow>
          (case ffmpeg e (OutMp3 stamp) (OutMulaw stamp) fs1 of
             None \<Rightarrow> (w\<lparr>files := fs1\<rparr>, None)
           | Some fs2 \<Rightarrow>
               (case fs2 (OutMulaw stamp) of
                  None \<Rightarrow> (w\<lparr>files := fs2\<rparr>, None)
                | Some mulawAudio \<Rightarrow>
                    (w\<lparr>files := unlink_all [InWav stamp, InRaw stamp, OutMp3 stamp, OutMulaw stamp] fs2,
                       sent := sent w @ [MediaOut (streamIds w) mulawAudio,
                                         MarkOut (streamIds w) ''reply_complete''],
                       speakingUntil := Some Infinity\<rparr>, None))))"

text \<open>
  Resuming a suspended activation with what it was waiting for.  A completion of another
  kind than the one awaited leaves the activation suspended.
\<close>

fun resume :: "env \<Rightarrow> task \<Rightarrow> completion \<Rightarrow> world \<Rightarrow> world \<times> task option" where
  "resume e (GreetDelay streamSid stamp) Timer w =
     (w\<lparr>calls := calls w @ [ElevenTTS ''Hey, this is Steve.'' (GreetMp3 stamp)]\<rparr>,
      Some (GreetTTS streamSid stamp))"
| "resume e (GreetTTS streamSid stamp) (Tts resp) w =
     (greeting_resume e streamSid stamp resp w, None)"
| "resume e (PipeSTT stamp) (Stt resp) w = pipeline_after_stt stamp resp w"
| "resume e (PipeChat stamp) (Chat resp) w = pipeline_after_chat stamp resp w"
| "resume e (PipeTTS stamp) (Tts resp) w = pipeline_after_tts e stamp resp w"
| "resume e t c w = (w, Some t)"

definition drop_task :: "nat \<Rightarrow> task list \<Rightarrow> task list" where
  "drop_task k ts = take k ts @ drop (Suc k) ts"

text \<open>
  One turn of the event loop: a transport message is handled up to the handler's first
  \<^verbatim>\<open>await\<close>, or the \<open>k\<close>-th suspended activation runs to its next \<^verbatim>\<open>await\<close> or to its end.
\<close>

definition step :: "env \<times> input \<Rightarrow> world \<Rightarrow> world" where
  "step x w =
     (case x of
        (e, Message ev) \<Rightarrow> on_message e ev w
      | (e, Resume k c) \<Rightarrow>
          if k < length (tasks w) then
            (case resume e (tasks w ! k) c w of
               (w1, None) \<Rightarrow> w1\<lparr>tasks := drop_task k (tasks w1)\<rparr>
             | (w1, Some t) \<Rightarrow> w1\<lparr>tasks := (tasks w1)[k := t]\<rparr>)
          else w)"

definition run :: "(env \<times> input) list \<Rightarrow> world \<Rightarrow> world" where
  "run xs w = fold step xs w"

fun is_pipeline :: "task \<Rightarrow> bool" where
  "is_pipeline (PipeSTT stamp) = True"
| "is_pipeline (PipeChat stamp) = True"
| "is_pipeline (PipeTTS stamp) = True"
| "is_pipeline t = False"

text \<open>The pipeline runs of the connection that have started and not yet ended.\<close>

definition in_flight :: "'a relay_scheme \<Rightarrow> nat" where
  "in_flight w = length (filter is_pipeline (tasks w))"

text \<open>A run of media messages, each with the environment it arrives in.\<close>

definition media_inputs :: "(env \<times> string) list \<Rightarrow> (env \<times> input) list" where
  "media_inputs xs = map (\<lambda>x. (fst x, Message (Media (snd x)))) xs"

text \<open>
  The inputs that empty the buffer of a connection: an accepted media message that brings
  the count to 60 (the flush), \<^verbatim>\<open>stop\<close> (\<^verbatim>\<open>audioChunks.delete(ws)\<close>), and the end of the
  greeting (\<^verbatim>\<open>audioChunks.set(ws, [])\<close> after the \<^verbatim>\<open>finally\<close> of the start branch).
  \<open>accepted\<close> collects, in arrival order, the frames of the media messages of a run that
  pass the mute gate; \<open>quiet\<close> says that no input of the run empties the buffer.
\<close>

fun is_greeting_tts :: "task \<Rightarrow> bool" where
  "is_greeting_tts (GreetTTS streamSid stamp) = True"
| "is_greeting_tts t = False"

fun emptying :: "env \<times> input \<Rightarrow> world \<Rightarrow> bool" where
  "emptying (e, Message (Media payload)) w =
     (\<not> muted (now e) (speakingUntil w) \<and> 59 \<le> length (buffered w))"
| "emptying (e, Message Stop) w = True"
| "emptying (e, Resume k (Tts resp)) w = (k < length (tasks w) \<and> is_greeting_tts (tasks w ! k))"
| "emptying x w = False"

fun accepted_frame :: "env \<times> input \<Rightarrow> world \<Rightarrow> buffer list" where
  "accepted_frame (e, Message (Media payload)) w =
     (if muted (now e) (speakingUntil w) then [] else [FromBase64 payload])"
| "accepted_frame x w = []"

fun accepted :: "(env \<times> input) list \<Rightarrow> world \<Rightarrow> buffer list" where
  "accepted [] w = []"
| "accepted (x # xs) w = accepted_frame x w @ accepted xs (step x w)"

fun quiet :: "(env \<times> input) list \<Rightarrow> world \<Rightarrow> bool" where
  "quiet [] w = True"
| "quiet (x # xs) w = (\<not> emptying x w \<and> quiet xs (step x w))"

section \<open>The simpler variant (server.js)\<close>

text \<open>
  \<^verbatim>\<open>server.js\<close> has the same start branch, threshold, \<^verbatim>\<open>whisperSTT\<close> and \<^verbatim>\<open>elevenTTS\<close>, but no
  mute gate, no mark branch, no history and no mark after the reply.  Its definitions carry
  the prefix \<open>basic\<close>.
\<close>

definition basic_connection :: relay where
  "basic_connection =
     \<lparr>audioChunks = None, streamIds = None,
      files = Map.empty, sent = [], calls = [], tasks = []\<rparr>"

definition basic_on_media :: "env \<Rightarrow> string \<Rightarrow> relay \<Rightarrow> relay" where
  "basic_on_media e payload r =
     (let chunks = buffered r @ [FromBase64 payload]
      in if length chunks \<ge> 60
         then start_pipeline e chunks (r\<lparr>audioChunks := Some []\<rparr>)
         else r\<lparr>audioChunks := Some chunks\<rparr>)"

definition basic_on_message :: "env \<Rightarrow> event \<Rightarrow> relay \<Rightarrow> relay" where
  "basic_on_message e ev r =
     (case ev of
        Start streamSid \<Rightarrow> on_start e streamSid r
      | Media payload \<Rightarrow> basic_on_media e payload r
      | Mark \<Rightarrow> r
      | Stop \<Rightarrow> r\<lparr>audioChunks := None, streamIds := None\<rparr>
      | Other \<Rightarrow> r)"

definition basic_greeting_resume :: "env \<Rightarrow> string option \<Rightarrow> nat \<Rightarrow> tts_resp \<Rightarrow> relay \<Rightarrow> relay" where
  "basic_greeting_resume e streamSid stamp resp r =
     (let r1 =
        (case elevenTTS_resume resp (GreetMp3 stamp) (files r) of
           None \<Rightarrow> fallback_tone e streamSid stamp r
         | Some fs1 \<Rightarrow>
             (case ffmpeg e (GreetMp3 stamp) (GreetMulaw stamp) fs1 of
                None \<Rightarrow> fallback_tone e streamSid stamp (r\<lparr>files := fs1\<rparr>)
              | Some fs2 \<Rightarrow>
                  (case fs2 (GreetMulaw stamp) of
                     None \<Rightarrow> fallback_tone e streamSid stamp (r\<lparr>files := fs2\<rparr>)
                   | Some mulawAudio \<Rightarrow>
                       r\<lparr>files := fs2, sent := sent r @ [MediaOut streamSid mulawAudio]\<rparr>)));
          r2 = r1\<lparr>files := unlink_all [GreetMp3 stamp, GreetMulaw stamp] (files r1)\<rparr>
      in r2\<lparr>audioChunks := Some []\<rparr>)"

text \<open>
  \<^verbatim>\<open>chatReply(text)\<close> of \<^verbatim>\<open>server.js\<close> from the provider's answer on: a non-2xx answer is
  logged and the function goes on to \<^verbatim>\<open>json.choices?.[0]?.message?.content || '...'\<close>.
\<close>

definition basic_chatReply_resume :: "chat_resp \<Rightarrow> error + string" where
  "basic_chatReply_resume resp =
     (case resp of
        ChatRejects \<Rightarrow> Inl FetchError
      | ChatResp ok c \<Rightarrow> Inr (reply_or_default c))"

definition basic_pipeline_after_stt :: "nat \<Rightarrow> stt_resp \<Rightarrow> relay \<Rightarrow> relay \<times> task option" where
  "basic_pipeline_after_stt stamp resp r =
     (case whisperSTT_result resp of
        Inl err \<Rightarrow> (r, None)
      | Inr transcript \<Rightarrow>
          if transcript = [] then (r, None)
          else
            (r\<lparr>calls := calls r @
                [ChatFetch
                   [\<lparr>role = ''system'',
                     content = ''You are Steve, a helpful assistant. Keep replies concise for phone.''\<rparr>,
                    \<lparr>role = ''user'', content = transcript\<rparr>]]\<rparr>,
             Some (PipeChat stamp)))"

definition basic_pipeline_after_chat :: "nat \<Rightarrow> chat_resp \<Rightarrow> relay \<Rightarrow> relay \<times> task option" where
  "basic_pipeline_after_chat stamp resp r =
     (case basic_chatReply_resume resp of
        Inl err \<Rightarrow> (r, None)
      | Inr replyText \<Rightarrow>
          (r\<lparr>calls := calls r @ [ElevenTTS replyText (OutMp3 stamp)]\<rparr>, Some (PipeTTS stamp)))"

definition basic_pipeline_after_tts :: "env \<Rightarrow> nat \<Rightarrow> tts_resp \<Rightarrow> relay \<Rightarrow> relay \<times> task option" where
  "basic_pipeline_after_tts e stamp resp r =
     (case elevenTTS_resume resp (OutMp3 stamp) (files r) of
        None \<Rightarrow> (r, None)
      | Some fs1 \<Rightarrow>
          (case ffmpeg e (OutMp3 stamp) (OutMulaw stamp) fs1 of
             None \<Rightarrow> (r\<lparr>files := fs1\<rparr>, None)
           | Some fs2 \<Rightarrow>
               (case fs2 (OutMulaw stamp) of
                  None \<Rightarrow> (r\<lparr>files := fs2\<rparr>, None)
                | Some mulawAudio \<Rightarrow>
                    (r\<lparr>files := unlink_all [InWav stamp, InRaw stamp, OutMp3 stamp, OutMulaw stamp] fs2,
                       sent := sent r @ [MediaOut (streamIds r) mulawAudio]\<rparr>, None))))"

fun basic_resume :: "env \<Rightarrow> task \<Rightarrow> completion \<Rightarrow> relay \<Rightarrow> relay \<times> task option" where
  "basic_resume e (GreetDelay streamSid stamp) Timer r =
     (r\<lparr>calls := calls r @ [ElevenTTS ''Hey, this is Steve.'' (GreetMp3 stamp)]\<rparr>,
      Some (GreetTTS streamSid stamp))"
| "basic_resume e (GreetTTS streamSid stamp) (Tts resp) r =
     (basic_greeting_resume e streamSid stamp resp r, None)"
| "basic_resume e (PipeSTT stamp) (Stt resp) r = basic_pipeline_after_stt stamp resp r"
| "basic_resume e (PipeChat stamp) (Chat resp) r = basic_pipeline_after_chat stamp resp r"
| "basic_resume e (PipeTTS stamp) (Tts resp) r = basic_pipeline_after_tts e stamp resp r"
| "basic_resume e t c r = (r, Some t)"

definition basic_step :: "env \<times> input \<Rightarrow> relay \<Rightarrow> relay" where
  "basic_step x r =
     (case x of
        (e, Message ev) \<Rightarrow> basic_on_message e ev r
      | (e, Resume k c) \<Rightarrow>
          if k < length (tasks r) then
            (case basic_resume e (tasks r ! k) c r of
               (r1, None) \<Rightarrow> r1\<lparr>tasks := drop_task k (tasks r1)\<rparr>
             | (r1, Some t) \<Rightarrow> r1\<lparr>tasks := (tasks r1)[k := t]\<rparr>)
          else r)"

definition basic_run :: "(env \<times> input) list \<Rightarrow> relay \<Rightarrow> relay" where
  "basic_run xs r = fold basic_step xs r"

section \<open>Properties of the history\<close>

lemma js_slice_tail:
  "10 \<le> length xs \<Longrightarrow> js_slice xs (int (length xs) - 10) = drop (length xs - 10) xs"
  by (simp add: js_slice_def js_index_def nat_diff_distrib)

lemma prune_eq:
  "prune h =
     (if length h > 11 then take 1 h @ drop (length h - 10) h @ drop (length h - 10) h else h)"
proof (cases "length h > 11")
  case False
  then show ?thesis by (simp add: prune_def)
next
  case True
  then have s: "js_slice h (int (length h) - 10) = drop (length h - 10) h"
    by (simp add: js_slice_tail)
  have d: "nat (int (length h) - 11) = length h - 11"
    by (simp add: nat_diff_distrib)
  have e: "Suc (length h - 11) = length h - 10"
    using True by arith
  have sp: "js_splice h 1 (int (length h) - 1 - 10) (drop (length h - 10) h) =
      take 1 h @ drop (length h - 10) h @ drop (length h - 10) h"
  proof -
    have le: "length h - 11 \<le> length h - Suc 0"
      by arith
    show ?thesis
      using True le by (simp add: js_splice_def js_index_def Let_def d e max_def min_def)
  qed
  have len: "length (take 1 h @ drop (length h - 10) h @ drop (length h - 10) h) = 21"
    using True by simp
  have "shift_oldest (take 1 h @ drop (length h - 10) h @ drop (length h - 10) h) =
      take 1 h @ drop (length h - 10) h @ drop (length h - 10) h"
    by (subst shift_oldest.simps) (simp only: len, simp)
  with True s sp show ?thesis by (simp add: prune_def Let_def)
qed

lemma prune_length: "length (prune h) = (if length h > 11 then 21 else length h)"
  by (simp add: prune_eq)

lemma prune_nonempty: "h \<noteq> [] \<Longrightarrow> prune h \<noteq> []"
  by (cases h) (auto simp: prune_eq)

lemma prune_hd: "h \<noteq> [] \<Longrightarrow> prune h ! 0 = h ! 0"
  by (cases h) (auto simp: prune_eq)

lemma apply_op_nonempty: "h \<noteq> [] \<Longrightarrow> apply_op x h \<noteq> []"
  by (cases x) (simp_all add: prune_nonempty)

lemma apply_op_hd: "h \<noteq> [] \<Longrightarrow> apply_op x h ! 0 = h ! 0"
  by (cases x) (simp_all add: prune_hd nth_append)

lemma apply_ops_hd: "h \<noteq> [] \<Longrightarrow> apply_ops xs h ! 0 = h ! 0"
  by (induction xs arbitrary: h) (simp_all add: apply_op_nonempty apply_op_hd)

lemma apply_ops_append: "apply_ops (xs @ ys) h = apply_ops ys (apply_ops xs h)"
  by (induction xs arbitrary: h) simp_all

text \<open>
  C2 at its failing input.  The bound the code states is the preamble plus ten: the comment
  ``keep system + last 10'', the trigger \<^verbatim>\<open>history.length > 11\<close> and
  \<^verbatim>\<open>history.slice(history.length - 10)\<close>.  Six turns, each pushing a user and an assistant
  message and then running the prune block, leave more than 1 + 10 entries: the
  \<^verbatim>\<open>splice\<close> re-inserts the ten entries it should have kept (\<open>prune_eq\<close>), the same
  defect as in C3.  The entry at index 0 is not affected (\<open>apply_ops_hd\<close>).
\<close>

theorem C2_length_exceeds_preamble_plus_10:
  "\<not> length
       (apply_ops
          (concat (replicate 6
             [Append (user_message ''hi''), Append (assistant_message ''hello''), Prune]))
          [\<lparr>role = ''system'', content = ''p''\<rparr>])
     \<le> 1 + 10"
  by code_simp

text \<open>
  C3 at its failing input.  The sixth successful turn of a call finds the preamble and five
  exchanges in the history, pushes the sixth exchange and prunes.  The history afterwards
  holds the last ten messages twice: \<^verbatim>\<open>splice\<close> inserts \<^verbatim>\<open>recent\<close> in front of the very
  entries it was sliced from.
\<close>

theorem C3_sixth_turn_duplicates_last_ten:
  "chatReply ''u6''
     [\<lparr>role = ''system'', content = ''p''\<rparr>,
      user_message ''u1'', assistant_message ''a1'',
      user_message ''u2'', assistant_message ''a2'',
      user_message ''u3'', assistant_message ''a3'',
      user_message ''u4'', assistant_message ''a4'',
      user_message ''u5'', assistant_message ''a5'']
     (ChatResp True (Some ''a6'')) =
   ([\<lparr>role = ''system'', content = ''p''\<rparr>,
     user_message ''u2'', assistant_message ''a2'',
     user_message ''u3'', assistant_message ''a3'',
     user_message ''u4'', assistant_message ''a4'',
     user_message ''u5'', assistant_message ''a5'',
     user_message ''u6'', assistant_message ''a6'',
     user_message ''u2'', assistant_message ''a2'',
     user_message ''u3'', assistant_message ''a3'',
     user_message ''u4'', assistant_message ''a4'',
     user_message ''u5'', assistant_message ''a5'',
     user_message ''u6'', assistant_message ''a6''],
    Inr ''a6'')"
  by (simp add: chatReply_def chatReply_resume_def chatReply_push_def reply_or_default_def
      prune_eq Let_def)

text \<open>
  C10, as stated, fails for a non-2xx answer whose body is not JSON: \<^verbatim>\<open>await resp.json()\<close>
  runs before \<^verbatim>\<open>if (!resp.ok)\<close>, so it rejects (\<open>ChatRejects\<close>) and \<^verbatim>\<open>chatReply\<close> throws to
  its caller instead of returning the fixed string.
\<close>

theorem C10_non_json_body_throws:
  "chatReply ''hello'' [\<lparr>role = ''system'', content = ''p''\<rparr>] ChatRejects =
     ([\<lparr>role = ''system'', content = ''p''\<rparr>, \<lparr>role = ''user'', content = ''hello''\<rparr>],
      Inl FetchError)"
  by (simp add: chatReply_def chatReply_resume_def chatReply_push_def user_message_def)

text \<open>
  C10, as amended.  On a non-2xx answer of the Language Provider whose body parses as JSON,
  \<^verbatim>\<open>chatReply\<close> returns normally with the fixed string, and the history it leaves is the
  one it was given with the user message pushed: no assistant message, no pruning, nothing
  undone.  When \<^verbatim>\<open>fetch\<close> or \<^verbatim>\<open>resp.json()\<close> rejects, \<^verbatim>\<open>chatReply\<close> throws, and the user
  message stays pushed all the same.
\<close>

theorem C10_non_2xx_with_json_body_keeps_user_message:
  "chatReply text h (ChatResp False c) =
     (h @ [\<lparr>role = ''user'', content = text\<rparr>], Inr ''Sorry, I had a brain fart.'') \<and>
   chatReply text h ChatRejects = (h @ [\<lparr>role = ''user'', content = text\<rparr>], Inl FetchError)"
  by (simp add: chatReply_def chatReply_resume_def chatReply_push_def user_message_def)

section \<open>Properties of the media branch\<close>

lemma run_append: "run (xs @ ys) w = run ys (run xs w)"
  by (simp add: run_def)

lemma run_Cons: "run (x # xs) w = run xs (step x w)"
  by (simp add: run_def)

lemma run_Nil: "run [] w = w"
  by (simp add: run_def)

lemma media_inputs_Nil: "media_inputs [] = []"
  by (simp add: media_inputs_def)

lemma media_inputs_Cons:
  "media_inputs (x # xs) = (fst x, Message (Media (snd x))) # media_inputs xs"
  by (simp add: media_inputs_def)

lemma media_inputs_append: "media_inputs (xs @ ys) = media_inputs xs @ media_inputs ys"
  by (simp add: media_inputs_def)

lemma step_media: "step (e, Message (Media p)) w = on_media e p w"
  by (simp add: step_def on_message_def)

lemma on_media_below:
  assumes "\<not> muted (now e) (speakingUntil w)" and "length (buffered w) < 59"
  shows "on_media e p w = w\<lparr>audioChunks := Some (buffered w @ [FromBase64 p])\<rparr>"
  using assms by (simp add: on_media_def Let_def)

lemma on_media_threshold:
  assumes "\<not> muted (now e) (speakingUntil w)" and "59 \<le> length (buffered w)"
  shows "on_media e p w =
    start_pipeline e (buffered w @ [FromBase64 p]) (w\<lparr>audioChunks := Some []\<rparr>)"
  using assms by (simp add: on_media_def Let_def)

lemma media_below_threshold:
  assumes "\<forall>x\<in>set xs. \<not> muted (now (fst x)) (speakingUntil w)"
    and "length (buffered w) + length xs < 60"
    and "xs \<noteq> []"
  shows "run (media_inputs xs) w =
    w\<lparr>audioChunks := Some (buffered w @ map (\<lambda>x. FromBase64 (snd x)) xs)\<rparr>"
  using assms
proof (induction xs arbitrary: w)
  case Nil
  then show ?case by simp
next
  case (Cons x xs)
  let ?w1 = "w\<lparr>audioChunks := Some (buffered w @ [FromBase64 (snd x)])\<rparr>"
  have first: "step (fst x, Message (Media (snd x))) w = ?w1"
    using Cons.prems by (simp add: step_media on_media_below)
  show ?case
  proof (cases "xs = []")
    case True
    with first show ?thesis
      by (simp add: media_inputs_Cons run_Cons run_Nil media_inputs_def)
  next
    case False
    have "run (media_inputs xs) ?w1 =
        ?w1\<lparr>audioChunks := Some (buffered ?w1 @ map (\<lambda>x. FromBase64 (snd x)) xs)\<rparr>"
      using Cons.prems False by (intro Cons.IH) (simp_all add: buffered_def)
    with first show ?thesis
      by (simp add: media_inputs_Cons run_Cons buffered_def)
  qed
qed

lemma media_reaches_threshold:
  assumes "\<forall>x\<in>set xs. \<not> muted (now (fst x)) (speakingUntil w)"
    and "length (buffered w) + length xs = 60"
    and "xs \<noteq> []"
  shows "run (media_inputs xs) w =
    start_pipeline (fst (last xs)) (buffered w @ map (\<lambda>x. FromBase64 (snd x)) xs)
      (w\<lparr>audioChunks := Some []\<rparr>)"
proof -
  let ?f = "\<lambda>x. FromBase64 (snd x)"
  have split: "xs = butlast xs @ [last xs]"
    using assms(3) by simp
  have inputs: "media_inputs xs =
      media_inputs (butlast xs) @ [(fst (last xs), Message (Media (snd (last xs))))]"
    by (subst split) (simp only: media_inputs_append, simp add: media_inputs_def)
  have frames: "map ?f xs = map ?f (butlast xs) @ [?f (last xs)]"
    by (subst split) (simp only: map_append, simp)
  have unmuted_last: "\<not> muted (now (fst (last xs))) (speakingUntil w)"
    using assms(1,3) by simp
  show ?thesis
  proof (cases "butlast xs = []")
    case True
    then have "length (buffered w) = 59"
      using assms(2,3) by (cases xs) (auto split: if_splits)
    with True unmuted_last show ?thesis
      by (simp add: inputs frames run_Cons run_Nil step_media on_media_threshold
          media_inputs_Nil)
  next
    case False
    let ?w1 = "w\<lparr>audioChunks := Some (buffered w @ map ?f (butlast xs))\<rparr>"
    have all: "\<forall>x\<in>set (butlast xs). \<not> muted (now (fst x)) (speakingUntil w)"
      using assms(1) by (meson in_set_butlastD)
    have len: "length (buffered w) + length (butlast xs) = 59"
      using assms(2,3) by (cases xs) auto
    have "run (media_inputs (butlast xs)) w = ?w1"
      using all len False by (intro media_below_threshold) simp_all
    moreover have "on_media (fst (last xs)) (snd (last xs)) ?w1 =
        start_pipeline (fst (last xs)) (buffered ?w1 @ [?f (last xs)])
          (?w1\<lparr>audioChunks := Some []\<rparr>)"
      using unmuted_last len by (intro on_media_threshold) (simp_all add: buffered_def)
    ultimately show ?thesis
      by (simp add: inputs frames run_append run_Cons run_Nil step_media buffered_def)
  qed
qed

lemma sixty_identical_frames:
  assumes "\<not> muted (now e) (speakingUntil w)" and "buffered w = []"
  shows "run (replicate 60 (e, Message (Media p))) w =
    start_pipeline e (replicate 60 (FromBase64 p)) (w\<lparr>audioChunks := Some []\<rparr>)"
proof -
  have "run (media_inputs (replicate 60 (e, p))) w =
      start_pipeline (fst (last (replicate 60 (e, p))))
        (buffered w @ map (\<lambda>x. FromBase64 (snd x)) (replicate 60 (e, p)))
        (w\<lparr>audioChunks := Some []\<rparr>)"
    using assms by (intro media_reaches_threshold) simp_all
  then show ?thesis
    using assms(2) by (simp add: media_inputs_def)
qed

text \<open>
  A call that is greeted: the start message, the timer, a 2xx synthesis of the greeting.
\<close>

lemma greeted:
  "run [(\<lparr>now = 0, ffmpeg_fails = {}\<rparr>, Message (Start (Some ''MZ1''))),
        (\<lparr>now = 400, ffmpeg_fails = {}\<rparr>, Resume 0 Timer),
        (\<lparr>now = 900, ffmpeg_fails = {}\<rparr>, Resume 0 (Tts (TtsResp True ''greeting'')))]
     (connection ''p'') =
   (connection ''p'')
     \<lparr>audioChunks := Some [], streamIds := Some ''MZ1'',
      sent := [MediaOut (Some ''MZ1'') (Ffmpeg (Body ''greeting''))],
      calls := [ElevenTTS ''Hey, this is Steve.'' (GreetMp3 0)],
      speakingUntil := Some (Finite 3400)\<rparr>"
  by (simp add: run_def step_def on_message_def on_start_def greeting_resume_def
      elevenTTS_resume_def ffmpeg_def unlink_all_def connection_def drop_task_def Let_def)

lemma start_pipeline_raw_file:
  "files (start_pipeline e buffers w) (InRaw (now e)) = Some (Concat buffers)"
  by (simp add: start_pipeline_def ffmpeg_def Let_def split: option.splits)

lemma start_pipeline_audioChunks:
  "audioChunks (start_pipeline e buffers w) = audioChunks w"
  by (simp add: start_pipeline_def ffmpeg_def Let_def split: option.splits)

lemma start_pipeline_speakingUntil:
  "speakingUntil (start_pipeline e buffers w) = speakingUntil w"
  by (simp add: start_pipeline_def ffmpeg_def Let_def split: option.splits)

lemma start_pipeline_tasks:
  "tasks (start_pipeline e buffers w) =
     (if InWav (now e) \<in> ffmpeg_fails e then tasks w else tasks w @ [PipeSTT (now e)])"
  by (simp add: start_pipeline_def ffmpeg_def Let_def)

lemma start_pipeline_calls:
  "calls (start_pipeline e buffers w) =
     (if InWav (now e) \<in> ffmpeg_fails e then calls w
      else calls w @ [WhisperSTT (InWav (now e))])"
  by (simp add: start_pipeline_def ffmpeg_def Let_def)

text \<open>
  C6.  A media message that arrives while \<^verbatim>\<open>speakingUntil\<close> holds \<^verbatim>\<open>Infinity\<close> or a clock
  reading still ahead leaves the whole state as it was: the buffer keeps its frames and no
  activation is added.
\<close>

theorem C6_media_while_muted_is_dropped:
  assumes "speakingUntil w = Some Infinity \<or> (speakingUntil w = Some (Finite t) \<and> now e < t)"
  shows "step (e, Message (Media payload)) w = w"
  using assms by (auto simp: step_media on_media_def muted_def)

theorem C6_media_while_muted_is_dropped_witness:
  "(speakingUntil ((connection ''p'')\<lparr>speakingUntil := Some (Finite 2500)\<rparr>) = Some Infinity \<or>
    (speakingUntil ((connection ''p'')\<lparr>speakingUntil := Some (Finite 2500)\<rparr>) = Some (Finite 2500) \<and>
     now \<lparr>now = 1000, ffmpeg_fails = {}\<rparr> < 2500)) \<and>
   step (\<lparr>now = 1000, ffmpeg_fails = {}\<rparr>, Message (Media ''AA''))
     ((connection ''p'')\<lparr>speakingUntil := Some (Finite 2500)\<rparr>) =
   (connection ''p'')\<lparr>speakingUntil := Some (Finite 2500)\<rparr>"
  using C6_media_while_muted_is_dropped
    [of "(connection ''p'')\<lparr>speakingUntil := Some (Finite 2500)\<rparr>" 2500
        "\<lparr>now = 1000, ffmpeg_fails = {}\<rparr>" "''AA''"]
  by simp

text \<open>
  C7.  When the Speech Provider's answer carries no text or the empty text, the run that
  waited for it ends there: nothing else of the state changes, so no Language or Synthesis
  Provider call is logged, nothing is sent, and the mute field is what it was when the run's
  frames were accepted.
\<close>

theorem C7_empty_transcript_ends_the_run:
  assumes "k < length (tasks w)"
    and "tasks w ! k = PipeSTT stamp"
    and "text = None \<or> text = Some []"
  shows "step (e, Resume k (Stt (SttResp ok text))) w = w\<lparr>tasks := drop_task k (tasks w)\<rparr>"
  using assms by (auto simp: step_def pipeline_after_stt_def whisperSTT_result_def)

theorem C7_empty_transcript_ends_the_run_witness:
  "0 < length (tasks ((connection ''p'')\<lparr>tasks := [PipeSTT 7]\<rparr>)) \<and>
   tasks ((connection ''p'')\<lparr>tasks := [PipeSTT 7]\<rparr>) ! 0 = PipeSTT 7 \<and>
   (Some [] = None \<or> Some [] = Some ([] :: string)) \<and>
   step (\<lparr>now = 9, ffmpeg_fails = {}\<rparr>, Resume 0 (Stt (SttResp True (Some []))))
     ((connection ''p'')\<lparr>tasks := [PipeSTT 7]\<rparr>) =
   (connection ''p'')\<lparr>tasks := [PipeSTT 7]\<rparr>
     \<lparr>tasks := drop_task 0 (tasks ((connection ''p'')\<lparr>tasks := [PipeSTT 7]\<rparr>))\<rparr>"
  using C7_empty_transcript_ends_the_run
    [of 0 "(connection ''p'')\<lparr>tasks := [PipeSTT 7]\<rparr>" 7 "Some []"
        "\<lparr>now = 9, ffmpeg_fails = {}\<rparr>" True]
  by simp

lemma fallback_tone_audioChunks: "audioChunks (fallback_tone e sid stamp w) = audioChunks w"
  by (simp add: fallback_tone_def split: option.splits)

lemma pipeline_after_stt_audioChunks:
  "audioChunks (fst (pipeline_after_stt stamp resp w)) = audioChunks w"
  by (simp add: pipeline_after_stt_def Let_def split: sum.splits)

lemma pipeline_after_chat_audioChunks:
  "audioChunks (fst (pipeline_after_chat stamp resp w)) = audioChunks w"
  by (simp add: pipeline_after_chat_def split: prod.splits sum.splits)

lemma pipeline_after_tts_audioChunks:
  "audioChunks (fst (pipeline_after_tts e stamp resp w)) = audioChunks w"
  by (simp add: pipeline_after_tts_def split: option.splits)

lemma resume_audioChunks:
  assumes "\<not> (is_greeting_tts t \<and> (\<exists>resp. c = Tts resp))"
  shows "audioChunks (fst (resume e t c w)) = audioChunks w"
  using assms
  by (cases "(e, t, c, w)" rule: resume.cases)
    (simp_all add: pipeline_after_stt_audioChunks pipeline_after_chat_audioChunks
      pipeline_after_tts_audioChunks)

lemma step_resume_audioChunks:
  assumes "\<not> emptying (e, Resume k c) w"
  shows "audioChunks (step (e, Resume k c) w) = audioChunks w"
proof (cases "k < length (tasks w)")
  case False
  then show ?thesis by (simp add: step_def)
next
  case True
  have "\<not> (is_greeting_tts (tasks w ! k) \<and> (\<exists>resp. c = Tts resp))"
    using assms True by auto
  then have "audioChunks (fst (resume e (tasks w ! k) c w)) = audioChunks w"
    by (rule resume_audioChunks)
  then show ?thesis
    using True by (cases "resume e (tasks w ! k) c w") (auto simp: step_def split: option.splits)
qed

lemma step_keeps_buffer:
  assumes "\<not> emptying x w"
  shows "buffered (step x w) = buffered w @ accepted_frame x w"
proof (cases x)
  case (Pair e i)
  show ?thesis
  proof (cases i)
    case (Message ev)
    show ?thesis
      using assms unfolding Pair Message
      by (cases ev)
        (auto simp: step_def on_message_def on_start_def on_media_def Let_def buffered_def
          split: option.splits)
  next
    case (Resume k c)
    have "audioChunks (step (e, Resume k c) w) = audioChunks w"
      using assms unfolding Pair Resume by (rule step_resume_audioChunks)
    then show ?thesis
      unfolding Pair Resume by (simp add: buffered_def)
  qed
qed

lemma quiet_run_buffer:
  "quiet xs w \<Longrightarrow> buffered (run xs w) = buffered w @ accepted xs w"
proof (induction xs arbitrary: w)
  case Nil
  then show ?case by (simp add: run_Nil)
next
  case (Cons x xs)
  then show ?case by (simp add: run_Cons step_keeps_buffer)
qed

lemma greeting_resume_audioChunks:
  "audioChunks (greeting_resume e sid stamp resp w) = Some []"
  by (simp add: greeting_resume_def Let_def)

lemma emptying_empties:
  assumes "emptying x w"
  shows "buffered (step x w) = []"
  using assms
proof (cases "(x, w)" rule: emptying.cases)
  case (1 e payload w')
  then show ?thesis
    using assms
    by (simp add: step_media on_media_def Let_def buffered_def start_pipeline_audioChunks)
next
  case (2 e w')
  then show ?thesis by (simp add: step_def on_message_def buffered_def)
next
  case (3 e k resp w')
  then obtain sid stamp where t: "tasks w ! k = GreetTTS sid stamp"
    using assms by (cases "tasks w ! k") auto
  show ?thesis
    using 3 assms t
    by (simp add: step_def buffered_def greeting_resume_audioChunks)
qed (use assms in auto)


lemma start_pipeline_eq:
  "start_pipeline e frames w =
     (if InWav (now e) \<in> ffmpeg_fails e
      then w\<lparr>files := (files w)(InRaw (now e) \<mapsto> Concat frames)\<rparr>
      else w\<lparr>files := (files w)(InRaw (now e) \<mapsto> Concat frames,
                               InWav (now e) \<mapsto> Ffmpeg (Concat frames)),
             calls := calls w @ [WhisperSTT (InWav (now e))],
             tasks := tasks w @ [PipeSTT (now e)]\<rparr>)"
  by (simp add: start_pipeline_def ffmpeg_def Let_def)

lemma connection_buffer_empty: "buffered (connection s) = []"
  by (simp add: connection_def buffered_def)

lemma burst_quiet_accepted:
  assumes "\<forall>x\<in>set xs. \<not> muted (now (fst x)) (speakingUntil w)"
    and "length (buffered w) + length xs < 60"
  shows "quiet (media_inputs xs) w \<and>
    accepted (media_inputs xs) w = map (\<lambda>x. FromBase64 (snd x)) xs"
  using assms
proof (induction xs arbitrary: w)
  case Nil
  then show ?case by (simp add: media_inputs_Nil)
next
  case (Cons x xs)
  let ?w1 = "w\<lparr>audioChunks := Some (buffered w @ [FromBase64 (snd x)])\<rparr>"
  have first: "step (fst x, Message (Media (snd x))) w = ?w1"
    using Cons.prems by (simp add: step_media on_media_below)
  have "quiet (media_inputs xs) ?w1 \<and>
      accepted (media_inputs xs) ?w1 = map (\<lambda>x. FromBase64 (snd x)) xs"
    using Cons.prems by (intro Cons.IH) (simp_all add: buffered_def)
  with first Cons.prems show ?case
    by (simp add: media_inputs_Cons)
qed

lemma greeted_after_early_frame:
  "run [(\<lparr>now = 0, ffmpeg_fails = {}\<rparr>, Message (Start (Some ''MZ1''))),
        (\<lparr>now = 100, ffmpeg_fails = {}\<rparr>, Message (Media ''XX'')),
        (\<lparr>now = 400, ffmpeg_fails = {}\<rparr>, Resume 0 Timer),
        (\<lparr>now = 900, ffmpeg_fails = {}\<rparr>, Resume 0 (Tts (TtsResp True ''greeting'')))]
     (connection ''p'') =
   (connection ''p'')
     \<lparr>audioChunks := Some [], streamIds := Some ''MZ1'',
      sent := [MediaOut (Some ''MZ1'') (Ffmpeg (Body ''greeting''))],
      calls := [ElevenTTS ''Hey, this is Steve.'' (GreetMp3 0)],
      speakingUntil := Some (Finite 3400)\<rparr>"
  by (simp add: run_def step_def on_message_def on_start_def on_media_def muted_def
      buffered_def greeting_resume_def elevenTTS_resume_def ffmpeg_def unlink_all_def
      connection_def drop_task_def Let_def)

text \<open>
  C8, as stated, fails: a frame that arrives while the greeting is being synthesized passes
  the gate and is appended, no flush follows (the only provider call so far is the
  greeting's synthesis), and the end of the greeting empties the buffer.  The sixty frames
  after the grace period are flushed without it.
\<close>

theorem C8_frame_buffered_during_greeting_is_discarded:
  "audioChunks
     (run [(\<lparr>now = 0, ffmpeg_fails = {}\<rparr>, Message (Start (Some ''MZ1''))),
           (\<lparr>now = 100, ffmpeg_fails = {}\<rparr>, Message (Media ''XX''))]
        (connection ''p'')) = Some [FromBase64 ''XX''] \<and>
   calls
     (run [(\<lparr>now = 0, ffmpeg_fails = {}\<rparr>, Message (Start (Some ''MZ1''))),
           (\<lparr>now = 100, ffmpeg_fails = {}\<rparr>, Message (Media ''XX'')),
           (\<lparr>now = 400, ffmpeg_fails = {}\<rparr>, Resume 0 Timer),
           (\<lparr>now = 900, ffmpeg_fails = {}\<rparr>, Resume 0 (Tts (TtsResp True ''greeting'')))]
        (connection ''p'')) = [ElevenTTS ''Hey, this is Steve.'' (GreetMp3 0)] \<and>
   files
     (run ([(\<lparr>now = 0, ffmpeg_fails = {}\<rparr>, Message (Start (Some ''MZ1''))),
            (\<lparr>now = 100, ffmpeg_fails = {}\<rparr>, Message (Media ''XX'')),
            (\<lparr>now = 400, ffmpeg_fails = {}\<rparr>, Resume 0 Timer),
            (\<lparr>now = 900, ffmpeg_fails = {}\<rparr>, Resume 0 (Tts (TtsResp True ''greeting'')))] @
           replicate 60 (\<lparr>now = 4000, ffmpeg_fails = {}\<rparr>, Message (Media ''AA'')))
        (connection ''p'')) (InRaw 4000) =
     Some (Concat (replicate 60 (FromBase64 ''AA'')))"
  (is "audioChunks (run ?E ?c) = _ \<and> calls (run ?G ?c) = _ \<and> files (run (?G @ ?B) ?c) _ = _")
proof -
  let ?g = "(connection ''p'')
     \<lparr>audioChunks := Some [], streamIds := Some ''MZ1'',
      sent := [MediaOut (Some ''MZ1'') (Ffmpeg (Body ''greeting''))],
      calls := [ElevenTTS ''Hey, this is Steve.'' (GreetMp3 0)],
      speakingUntil := Some (Finite 3400)\<rparr>"
  have early: "audioChunks (run ?E ?c) = Some [FromBase64 ''XX'']"
    by (simp add: run_def step_def on_message_def on_start_def on_media_def muted_def
        buffered_def connection_def Let_def)
  have g: "run ?G ?c = ?g"
    by (rule greeted_after_early_frame)
  have no_run: "calls (run ?G ?c) = [ElevenTTS ''Hey, this is Steve.'' (GreetMp3 0)]"
    by (simp only: g) simp
  have b: "run ?B ?g =
      start_pipeline \<lparr>now = 4000, ffmpeg_fails = {}\<rparr> (replicate 60 (FromBase64 ''AA''))
        (?g\<lparr>audioChunks := Some []\<rparr>)"
    by (rule sixty_identical_frames) (simp_all add: muted_def buffered_def)
  have flushed: "files (run (?G @ ?B) ?c) (InRaw 4000) =
      Some (Concat (replicate 60 (FromBase64 ''AA'')))"
    using start_pipeline_raw_file
      [of "\<lparr>now = 4000, ffmpeg_fails = {}\<rparr>" "replicate 60 (FromBase64 ''AA'')"
          "?g\<lparr>audioChunks := Some []\<rparr>"]
    by (simp only: run_append g b) simp
  show ?thesis
    using early no_run flushed by (intro conjI)
qed

text \<open>
  C8, as amended.  Take a connection right after it was opened or right after an input that
  emptied its buffer, and any run of inputs none of which empties the buffer.  If the run's
  accepted frames number 59 and a further media message passes the gate, that message
  flushes: the buffer is empty afterwards, the raw file holds exactly the frames accepted
  since the emptying followed by the new one, in arrival order, its conversion is what the
  Speech Provider is called with, and a pipeline run is suspended there (or, when the
  conversion fails, only the raw file is left).
\<close>

theorem C8_flush_hands_over_frames_since_last_emptying:
  assumes "w1 = connection s \<or> (emptying z w0 \<and> w1 = step z w0)"
    and "quiet xs w1"
    and "length (accepted xs w1) = 59"
    and "\<not> muted (now e) (speakingUntil (run xs w1))"
  shows "step (e, Message (Media payload)) (run xs w1) =
    (let w = run xs w1; frames = accepted xs w1 @ [FromBase64 payload]
     in if InWav (now e) \<in> ffmpeg_fails e
        then w\<lparr>audioChunks := Some [],
               files := (files w)(InRaw (now e) \<mapsto> Concat frames)\<rparr>
        else w\<lparr>audioChunks := Some [],
               files := (files w)(InRaw (now e) \<mapsto> Concat frames,
                                 InWav (now e) \<mapsto> Ffmpeg (Concat frames)),
               calls := calls w @ [WhisperSTT (InWav (now e))],
               tasks := tasks w @ [PipeSTT (now e)]\<rparr>)"
proof -
  have "buffered w1 = []"
    using assms(1) by (auto simp: connection_buffer_empty emptying_empties)
  then have buf: "buffered (run xs w1) = accepted xs w1"
    using assms(2) by (simp add: quiet_run_buffer)
  then have "59 \<le> length (buffered (run xs w1))"
    using assms(3) by simp
  with assms(4) have "on_media e payload (run xs w1) =
      start_pipeline e (buffered (run xs w1) @ [FromBase64 payload])
        ((run xs w1)\<lparr>audioChunks := Some []\<rparr>)"
    by (rule on_media_threshold)
  then show ?thesis
    by (simp add: step_media buf start_pipeline_eq Let_def)
qed

theorem C8_flush_hands_over_frames_since_last_emptying_witness:
  "emptying (\<lparr>now = 0, ffmpeg_fails = {}\<rparr>, Message Stop) (connection ''p'') \<and>
   quiet (replicate 59 (\<lparr>now = 5, ffmpeg_fails = {}\<rparr>, Message (Media ''AA'')))
     (step (\<lparr>now = 0, ffmpeg_fails = {}\<rparr>, Message Stop) (connection ''p'')) \<and>
   length (accepted (replicate 59 (\<lparr>now = 5, ffmpeg_fails = {}\<rparr>, Message (Media ''AA'')))
     (step (\<lparr>now = 0, ffmpeg_fails = {}\<rparr>, Message Stop) (connection ''p''))) = 59 \<and>
   \<not> muted (now \<lparr>now = 6, ffmpeg_fails = {}\<rparr>)
     (speakingUntil (run (replicate 59 (\<lparr>now = 5, ffmpeg_fails = {}\<rparr>, Message (Media ''AA'')))
        (step (\<lparr>now = 0, ffmpeg_fails = {}\<rparr>, Message Stop) (connection ''p'')))) \<and>
   audioChunks (step (\<lparr>now = 6, ffmpeg_fails = {}\<rparr>, Message (Media ''BB''))
     (run (replicate 59 (\<lparr>now = 5, ffmpeg_fails = {}\<rparr>, Message (Media ''AA'')))
        (step (\<lparr>now = 0, ffmpeg_fails = {}\<rparr>, Message Stop) (connection ''p'')))) = Some [] \<and>
   files (step (\<lparr>now = 6, ffmpeg_fails = {}\<rparr>, Message (Media ''BB''))
     (run (replicate 59 (\<lparr>now = 5, ffmpeg_fails = {}\<rparr>, Message (Media ''AA'')))
        (step (\<lparr>now = 0, ffmpeg_fails = {}\<rparr>, Message Stop) (connection ''p'')))) (InRaw 6) =
     Some (Concat (replicate 59 (FromBase64 ''AA'') @ [FromBase64 ''BB'']))"
proof -
  let ?z = "(\<lparr>now = 0, ffmpeg_fails = {}\<rparr>, Message Stop)"
  let ?w1 = "step ?z (connection ''p'')"
  let ?x = "(\<lparr>now = 5, ffmpeg_fails = {}\<rparr>, ''AA'')"
  let ?xs = "replicate 59 (\<lparr>now = 5, ffmpeg_fails = {}\<rparr>, Message (Media ''AA''))"
  have xs: "?xs = media_inputs (replicate 59 ?x)"
    by (simp add: media_inputs_def)
  have w1: "speakingUntil ?w1 = None \<and> buffered ?w1 = []"
    by (simp add: step_def on_message_def buffered_def)
  have a: "emptying ?z (connection ''p'')"
    by simp
  have all: "\<forall>x\<in>set (replicate 59 ?x). \<not> muted (now (fst x)) (speakingUntil ?w1)"
    using w1 by (simp add: muted_def)
  have len: "length (buffered ?w1) + length (replicate 59 ?x) < 60"
    using w1 by simp
  note qa = burst_quiet_accepted [OF all len]
  have b: "quiet ?xs ?w1"
    using qa by (simp only: xs)
  have acc: "accepted ?xs ?w1 = replicate 59 (FromBase64 ''AA'')"
    using qa by (simp only: xs) simp
  have c: "length (accepted ?xs ?w1) = 59"
    by (simp only: acc) simp
  have "run ?xs ?w1 =
      ?w1\<lparr>audioChunks := Some (buffered ?w1 @ map (\<lambda>x. FromBase64 (snd x)) (replicate 59 ?x))\<rparr>"
    unfolding xs using all len by (intro media_below_threshold) simp_all
  then have "speakingUntil (run ?xs ?w1) = None"
    using w1 by simp
  then have d: "\<not> muted (now \<lparr>now = 6, ffmpeg_fails = {}\<rparr>) (speakingUntil (run ?xs ?w1))"
    by (simp add: muted_def)
  have h: "?w1 = connection ''q'' \<or> (emptying ?z (connection ''p'') \<and> ?w1 = step ?z (connection ''p''))"
    using a by simp
  note th = C8_flush_hands_over_frames_since_last_emptying [OF h b c d, of "''BB''"]
  have f: "audioChunks (step (\<lparr>now = 6, ffmpeg_fails = {}\<rparr>, Message (Media ''BB'')) (run ?xs ?w1)) =
      Some []"
    by (subst th) (simp add: Let_def)
  have g: "files (step (\<lparr>now = 6, ffmpeg_fails = {}\<rparr>, Message (Media ''BB'')) (run ?xs ?w1)) (InRaw 6) =
      Some (Concat (replicate 59 (FromBase64 ''AA'') @ [FromBase64 ''BB'']))"
    by (subst th) (simp add: Let_def acc)
  show ?thesis
    using a b c d f g by (intro conjI)
qed

text \<open>
  C9, as stated, fails at a connection that has received no start message: a media message
  is buffered there, and sixty of them start a pipeline run.
\<close>

theorem C9_media_before_start_is_buffered:
  "audioChunks
     (step (\<lparr>now = 0, ffmpeg_fails = {}\<rparr>, Message (Media ''AA'')) (connection ''p'')) =
     Some [FromBase64 ''AA''] \<and>
   in_flight
     (run (replicate 60 (\<lparr>now = 0, ffmpeg_fails = {}\<rparr>, Message (Media ''AA'')))
        (connection ''p'')) = 1"
  by code_simp

text \<open>
  C9, as amended.  The handler has no state that waits for start: on a fresh connection a
  media message creates the buffer and appends its frame, and sixty media messages hand
  their frames to a pipeline run, which is started unless the input conversion fails.
\<close>

theorem C9_fresh_connection_accepts_media:
  assumes "length xs = 60"
  shows "step (e, Message (Media payload)) (connection s) =
      (connection s)\<lparr>audioChunks := Some [FromBase64 payload]\<rparr> \<and>
    files (run (media_inputs xs) (connection s)) (InRaw (now (fst (last xs)))) =
      Some (Concat (map (\<lambda>x. FromBase64 (snd x)) xs)) \<and>
    in_flight (run (media_inputs xs) (connection s)) =
      (if InWav (now (fst (last xs))) \<in> ffmpeg_fails (fst (last xs)) then 0 else 1)"
proof -
  have unmuted: "\<not> muted t (speakingUntil (connection s))" for t
    by (simp add: connection_def muted_def)
  have empty: "buffered (connection s) = []"
    by (simp add: connection_def buffered_def)
  have one: "step (e, Message (Media payload)) (connection s) =
      (connection s)\<lparr>audioChunks := Some [FromBase64 payload]\<rparr>"
    using on_media_below [of e "connection s" payload]
    by (simp add: step_media unmuted empty)
  have "xs \<noteq> []"
    using assms by auto
  then have flush: "run (media_inputs xs) (connection s) =
      start_pipeline (fst (last xs)) (buffered (connection s) @ map (\<lambda>x. FromBase64 (snd x)) xs)
        ((connection s)\<lparr>audioChunks := Some []\<rparr>)"
    using assms by (intro media_reaches_threshold) (simp_all add: unmuted empty)
  have none: "tasks (connection s) = []"
    by (simp add: connection_def)
  show ?thesis
    by (simp add: one flush empty start_pipeline_raw_file in_flight_def start_pipeline_tasks
        none)
qed

theorem C9_fresh_connection_accepts_media_witness:
  "length (replicate 60 (\<lparr>now = 3, ffmpeg_fails = {}\<rparr>, ''AA'')) = 60 \<and>
   step (\<lparr>now = 3, ffmpeg_fails = {}\<rparr>, Message (Media ''AA'')) (connection ''p'') =
     (connection ''p'')\<lparr>audioChunks := Some [FromBase64 ''AA'']\<rparr> \<and>
   in_flight
     (run (media_inputs (replicate 60 (\<lparr>now = 3, ffmpeg_fails = {}\<rparr>, ''AA''))) (connection ''p'')) = 1"
proof -
  let ?x = "(\<lparr>now = 3, ffmpeg_fails = {}\<rparr>, ''AA'')"
  have a: "length (replicate 60 ?x) = 60"
    by simp
  have l: "last (replicate 60 ?x) = ?x"
    by simp
  show ?thesis
    using a C9_fresh_connection_accepts_media
      [OF a, of "\<lparr>now = 3, ffmpeg_fails = {}\<rparr>" "''AA''" "''p''"]
    by (simp only: l) simp
qed

text \<open>
  C1, as stated, fails: after the greeting's grace period sixty frames start a run, and
  sixty more frames arriving while that run still waits for the Speech Provider start a
  second one.
\<close>

theorem C1_two_runs_in_flight:
  "in_flight
     (run ([(\<lparr>now = 0, ffmpeg_fails = {}\<rparr>, Message (Start (Some ''MZ1''))),
            (\<lparr>now = 400, ffmpeg_fails = {}\<rparr>, Resume 0 Timer),
            (\<lparr>now = 900, ffmpeg_fails = {}\<rparr>, Resume 0 (Tts (TtsResp True ''greeting'')))] @
           replicate 60 (\<lparr>now = 4000, ffmpeg_fails = {}\<rparr>, Message (Media ''AA'')) @
           replicate 60 (\<lparr>now = 5200, ffmpeg_fails = {}\<rparr>, Message (Media ''AA'')))
        (connection ''p'')) = 2"
  (is "in_flight (run (?G @ ?B1 @ ?B2) ?c) = 2")
proof -
  let ?g = "(connection ''p'')
     \<lparr>audioChunks := Some [], streamIds := Some ''MZ1'',
      sent := [MediaOut (Some ''MZ1'') (Ffmpeg (Body ''greeting''))],
      calls := [ElevenTTS ''Hey, this is Steve.'' (GreetMp3 0)],
      speakingUntil := Some (Finite 3400)\<rparr>"
  have g: "run ?G ?c = ?g"
    by (rule greeted)
  let ?w1 = "start_pipeline \<lparr>now = 4000, ffmpeg_fails = {}\<rparr> (replicate 60 (FromBase64 ''AA''))
      (?g\<lparr>audioChunks := Some []\<rparr>)"
  have b1: "run ?B1 ?g = ?w1"
    by (rule sixty_identical_frames) (simp_all add: muted_def buffered_def)
  have b2: "run ?B2 ?w1 =
      start_pipeline \<lparr>now = 5200, ffmpeg_fails = {}\<rparr> (replicate 60 (FromBase64 ''AA''))
        (?w1\<lparr>audioChunks := Some []\<rparr>)"
    by (rule sixty_identical_frames)
      (simp_all add: muted_def buffered_def start_pipeline_speakingUntil
        start_pipeline_audioChunks)
  show ?thesis
    by (simp only: run_append g b1 b2)
      (simp add: in_flight_def start_pipeline_tasks connection_def)
qed

text \<open>
  C1, as amended.  Whether a media message starts a pipeline run is decided by the mute
  gate, the buffered count and the input conversion alone; the number of runs in flight is
  not consulted, and starting a run does not touch the mute field.
\<close>

theorem C1_run_starts_regardless_of_runs_in_flight:
  "in_flight (step (e, Message (Media payload)) w) =
     (if \<not> muted (now e) (speakingUntil w) \<and> 59 \<le> length (buffered w) \<and>
         InWav (now e) \<notin> ffmpeg_fails e
      then Suc (in_flight w) else in_flight w) \<and>
   speakingUntil (step (e, Message (Media payload)) w) = speakingUntil w"
  by (simp add: step_media on_media_def Let_def in_flight_def start_pipeline_tasks
      start_pipeline_speakingUntil)

section \<open>Properties of the pipeline after a provider's answer\<close>

lemma step_resume_chat:
  assumes "k < length (tasks w)" and "tasks w ! k = PipeChat stamp"
  shows "step (e, Resume k (Chat resp)) w =
    (case pipeline_after_chat stamp resp w of
       (w1, None) \<Rightarrow> w1\<lparr>tasks := drop_task k (tasks w1)\<rparr>
     | (w1, Some t) \<Rightarrow> w1\<lparr>tasks := (tasks w1)[k := t]\<rparr>)"
  using assms by (simp add: step_def)

lemma step_resume_tts:
  assumes "k < length (tasks w)" and "tasks w ! k = PipeTTS stamp"
  shows "step (e, Resume k (Tts resp)) w =
    (case pipeline_after_tts e stamp resp w of
       (w1, None) \<Rightarrow> w1\<lparr>tasks := drop_task k (tasks w1)\<rparr>
     | (w1, Some t) \<Rightarrow> w1\<lparr>tasks := (tasks w1)[k := t]\<rparr>)"
  using assms by (simp add: step_def)

lemma chat_non_2xx_continues:
  assumes "k < length (tasks w)" and "tasks w ! k = PipeChat stamp"
  shows "step (e, Resume k (Chat (ChatResp False c))) w =
    w\<lparr>calls := calls w @ [ElevenTTS ''Sorry, I had a brain fart.'' (OutMp3 stamp)],
      tasks := (tasks w)[k := PipeTTS stamp]\<rparr>"
  using assms
  by (simp add: step_resume_chat [OF assms] pipeline_after_chat_def chatReply_resume_def)

lemma chat_without_content_continues:
  assumes "k < length (tasks w)" and "tasks w ! k = PipeChat stamp"
  shows "step (e, Resume k (Chat (ChatResp True None))) w =
    w\<lparr>history := prune (history w @ [assistant_message ''Sorry, I missed that.'']),
      calls := calls w @ [ElevenTTS ''Sorry, I missed that.'' (OutMp3 stamp)],
      tasks := (tasks w)[k := PipeTTS stamp]\<rparr>"
  using assms
  by (simp add: step_resume_chat [OF assms] pipeline_after_chat_def chatReply_resume_def
      reply_or_default_def Let_def)

lemma chat_rejects_ends_the_run:
  assumes "k < length (tasks w)" and "tasks w ! k = PipeChat stamp"
  shows "step (e, Resume k (Chat ChatRejects)) w = w\<lparr>tasks := drop_task k (tasks w)\<rparr>"
  using assms
  by (simp add: step_resume_chat [OF assms] pipeline_after_chat_def chatReply_resume_def)

lemma tts_ok_sends_reply:
  assumes "k < length (tasks w)" and "tasks w ! k = PipeTTS stamp"
    and "OutMulaw stamp \<notin> ffmpeg_fails e"
  shows "sent (step (e, Resume k (Tts (TtsResp True body))) w) =
    sent w @ [MediaOut (streamIds w) (Ffmpeg (Body body)),
              MarkOut (streamIds w) ''reply_complete'']"
  using assms(3)
  by (simp add: step_resume_tts [OF assms(1,2)] pipeline_after_tts_def elevenTTS_resume_def
      ffmpeg_def)

lemma tts_non_2xx_sends_nothing:
  assumes "k < length (tasks w)" and "tasks w ! k = PipeTTS stamp"
    and "files w (OutMp3 stamp) = None"
  shows "step (e, Resume k (Tts (TtsResp False body))) w = w\<lparr>tasks := drop_task k (tasks w)\<rparr>"
  using assms(3)
  by (simp add: step_resume_tts [OF assms(1,2)] pipeline_after_tts_def elevenTTS_resume_def
      ffmpeg_def)

text \<open>
  C4, as stated, fails: a call is greeted, sixty frames are transcribed to ``hello'', the
  Language Provider answers non-2xx and the Synthesis Provider answers 2xx.  A synthesis
  call is made with the fixed apology, and its audio and a mark are sent after the greeting.
\<close>

theorem C4_non_2xx_reply_is_spoken:
  "calls
     (run ([(\<lparr>now = 0, ffmpeg_fails = {}\<rparr>, Message (Start (Some ''MZ1''))),
            (\<lparr>now = 400, ffmpeg_fails = {}\<rparr>, Resume 0 Timer),
            (\<lparr>now = 900, ffmpeg_fails = {}\<rparr>, Resume 0 (Tts (TtsResp True ''greeting'')))] @
           replicate 60 (\<lparr>now = 4000, ffmpeg_fails = {}\<rparr>, Message (Media ''AA'')) @
           [(\<lparr>now = 5000, ffmpeg_fails = {}\<rparr>, Resume 0 (Stt (SttResp True (Some ''hello'')))),
            (\<lparr>now = 6000, ffmpeg_fails = {}\<rparr>, Resume 0 (Chat (ChatResp False None))),
            (\<lparr>now = 7000, ffmpeg_fails = {}\<rparr>, Resume 0 (Tts (TtsResp True ''apology'')))])
        (connection ''p'')) =
     [ElevenTTS ''Hey, this is Steve.'' (GreetMp3 0),
      WhisperSTT (InWav 4000),
      ChatFetch [\<lparr>role = ''system'', content = ''p''\<rparr>, \<lparr>role = ''user'', content = ''hello''\<rparr>],
      ElevenTTS ''Sorry, I had a brain fart.'' (OutMp3 4000)] \<and>
   sent
     (run ([(\<lparr>now = 0, ffmpeg_fails = {}\<rparr>, Message (Start (Some ''MZ1''))),
            (\<lparr>now = 400, ffmpeg_fails = {}\<rparr>, Resume 0 Timer),
            (\<lparr>now = 900, ffmpeg_fails = {}\<rparr>, Resume 0 (Tts (TtsResp True ''greeting'')))] @
           replicate 60 (\<lparr>now = 4000, ffmpeg_fails = {}\<rparr>, Message (Media ''AA'')) @
           [(\<lparr>now = 5000, ffmpeg_fails = {}\<rparr>, Resume 0 (Stt (SttResp True (Some ''hello'')))),
            (\<lparr>now = 6000, ffmpeg_fails = {}\<rparr>, Resume 0 (Chat (ChatResp False None))),
            (\<lparr>now = 7000, ffmpeg_fails = {}\<rparr>, Resume 0 (Tts (TtsResp True ''apology'')))])
        (connection ''p'')) =
     [MediaOut (Some ''MZ1'') (Ffmpeg (Body ''greeting'')),
      MediaOut (Some ''MZ1'') (Ffmpeg (Body ''apology'')),
      MarkOut (Some ''MZ1'') ''reply_complete'']"
  (is "calls (run (?G @ ?B1 @ ?R) ?c) = _ \<and> _")
proof -
  let ?g = "(connection ''p'')
     \<lparr>audioChunks := Some [], streamIds := Some ''MZ1'',
      sent := [MediaOut (Some ''MZ1'') (Ffmpeg (Body ''greeting''))],
      calls := [ElevenTTS ''Hey, this is Steve.'' (GreetMp3 0)],
      speakingUntil := Some (Finite 3400)\<rparr>"
  have g: "run ?G ?c = ?g"
    by (rule greeted)
  let ?w1 = "start_pipeline \<lparr>now = 4000, ffmpeg_fails = {}\<rparr> (replicate 60 (FromBase64 ''AA''))
      (?g\<lparr>audioChunks := Some []\<rparr>)"
  have b1: "run ?B1 ?g = ?w1"
    by (rule sixty_identical_frames) (simp_all add: muted_def buffered_def)
  have r: "run (?G @ ?B1 @ ?R) ?c = run ?R ?w1"
    by (simp only: run_append g b1)
  show ?thesis
    unfolding r
    by (simp add: run_Cons run_Nil step_def start_pipeline_def ffmpeg_def
        pipeline_after_stt_def whisperSTT_result_def chatReply_push_def user_message_def
        assistant_message_def pipeline_after_chat_def chatReply_resume_def
        reply_or_default_def prune_eq pipeline_after_tts_def elevenTTS_resume_def
        unlink_all_def connection_def drop_task_def Let_def)
qed

text \<open>
  C4, as amended.  For a run waiting for the Language Provider: a non-2xx answer makes the
  run call the Synthesis Provider with ``Sorry, I had a brain fart.'' and go on (history
  and everything else untouched); a 2xx answer without reply content does the same with
  ``Sorry, I missed that.'', which is also pushed to the history; a 2xx synthesis answer
  that converts is then sent with a mark.  Only a rejected provider call ends the run with
  no synthesis call and nothing sent.
\<close>

theorem C4_language_failure_speaks_apology:
  assumes "k < length (tasks w)" and "tasks w ! k = PipeChat stamp"
  shows "step (e, Resume k (Chat (ChatResp False c))) w =
      w\<lparr>calls := calls w @ [ElevenTTS ''Sorry, I had a brain fart.'' (OutMp3 stamp)],
        tasks := (tasks w)[k := PipeTTS stamp]\<rparr> \<and>
    step (e, Resume k (Chat (ChatResp True None))) w =
      w\<lparr>history := prune (history w @ [assistant_message ''Sorry, I missed that.'']),
        calls := calls w @ [ElevenTTS ''Sorry, I missed that.'' (OutMp3 stamp)],
        tasks := (tasks w)[k := PipeTTS stamp]\<rparr> \<and>
    step (e, Resume k (Chat ChatRejects)) w = w\<lparr>tasks := drop_task k (tasks w)\<rparr> \<and>
    (OutMulaw stamp \<notin> ffmpeg_fails e' \<longrightarrow>
     sent (step (e', Resume k (Tts (TtsResp True body)))
             (step (e, Resume k (Chat (ChatResp False c))) w)) =
       sent w @ [MediaOut (streamIds w) (Ffmpeg (Body body)),
                 MarkOut (streamIds w) ''reply_complete''])"
proof (intro conjI impI)
  show "step (e, Resume k (Chat (ChatResp False c))) w =
      w\<lparr>calls := calls w @ [ElevenTTS ''Sorry, I had a brain fart.'' (OutMp3 stamp)],
        tasks := (tasks w)[k := PipeTTS stamp]\<rparr>"
    using assms by (rule chat_non_2xx_continues)
  show "step (e, Resume k (Chat (ChatResp True None))) w =
      w\<lparr>history := prune (history w @ [assistant_message ''Sorry, I missed that.'']),
        calls := calls w @ [ElevenTTS ''Sorry, I missed that.'' (OutMp3 stamp)],
        tasks := (tasks w)[k := PipeTTS stamp]\<rparr>"
    using assms by (rule chat_without_content_continues)
  show "step (e, Resume k (Chat ChatRejects)) w = w\<lparr>tasks := drop_task k (tasks w)\<rparr>"
    using assms by (rule chat_rejects_ends_the_run)
next
  assume ok: "OutMulaw stamp \<notin> ffmpeg_fails e'"
  let ?w1 = "w\<lparr>calls := calls w @ [ElevenTTS ''Sorry, I had a brain fart.'' (OutMp3 stamp)],
        tasks := (tasks w)[k := PipeTTS stamp]\<rparr>"
  have "sent (step (e', Resume k (Tts (TtsResp True body))) ?w1) =
      sent ?w1 @ [MediaOut (streamIds ?w1) (Ffmpeg (Body body)),
                  MarkOut (streamIds ?w1) ''reply_complete'']"
    using assms ok by (intro tts_ok_sends_reply) simp_all
  then show "sent (step (e', Resume k (Tts (TtsResp True body)))
             (step (e, Resume k (Chat (ChatResp False c))) w)) =
       sent w @ [MediaOut (streamIds w) (Ffmpeg (Body body)),
                 MarkOut (streamIds w) ''reply_complete'']"
    by (simp add: chat_non_2xx_continues [OF assms])
qed

theorem C4_language_failure_speaks_apology_witness:
  "0 < length (tasks ((connection ''p'')\<lparr>tasks := [PipeChat 7]\<rparr>)) \<and>
   tasks ((connection ''p'')\<lparr>tasks := [PipeChat 7]\<rparr>) ! 0 = PipeChat 7 \<and>
   OutMulaw 7 \<notin> ffmpeg_fails \<lparr>now = 9, ffmpeg_fails = {}\<rparr> \<and>
   calls (step (\<lparr>now = 8, ffmpeg_fails = {}\<rparr>, Resume 0 (Chat (ChatResp False None)))
     ((connection ''p'')\<lparr>tasks := [PipeChat 7]\<rparr>)) =
     [ElevenTTS ''Sorry, I had a brain fart.'' (OutMp3 7)] \<and>
   sent (step (\<lparr>now = 9, ffmpeg_fails = {}\<rparr>, Resume 0 (Tts (TtsResp True ''apology'')))
           (step (\<lparr>now = 8, ffmpeg_fails = {}\<rparr>, Resume 0 (Chat (ChatResp False None)))
              ((connection ''p'')\<lparr>tasks := [PipeChat 7]\<rparr>))) =
     [MediaOut None (Ffmpeg (Body ''apology'')), MarkOut None ''reply_complete'']"
proof -
  let ?w = "(connection ''p'')\<lparr>tasks := [PipeChat 7]\<rparr>"
  have a: "0 < length (tasks ?w)"
    by simp
  have b: "tasks ?w ! 0 = PipeChat 7"
    by simp
  have c: "OutMulaw 7 \<notin> ffmpeg_fails \<lparr>now = 9, ffmpeg_fails = {}\<rparr>"
    by simp
  have w: "calls ?w = [] \<and> sent ?w = [] \<and> streamIds ?w = None"
    by (simp add: connection_def)
  note th = C4_language_failure_speaks_apology
      [OF a b, of "\<lparr>now = 8, ffmpeg_fails = {}\<rparr>" None "\<lparr>now = 9, ffmpeg_fails = {}\<rparr>"
         "''apology''"]
  have d: "calls (step (\<lparr>now = 8, ffmpeg_fails = {}\<rparr>, Resume 0 (Chat (ChatResp False None))) ?w) =
      [ElevenTTS ''Sorry, I had a brain fart.'' (OutMp3 7)]"
    using th [THEN conjunct1] w by simp
  have e: "sent (step (\<lparr>now = 9, ffmpeg_fails = {}\<rparr>, Resume 0 (Tts (TtsResp True ''apology'')))
           (step (\<lparr>now = 8, ffmpeg_fails = {}\<rparr>, Resume 0 (Chat (ChatResp False None))) ?w)) =
      [MediaOut None (Ffmpeg (Body ''apology'')), MarkOut None ''reply_complete'']"
    using th [THEN conjunct2, THEN conjunct2, THEN conjunct2] c w by simp
  show ?thesis
    using a b c d e by (intro conjI)
qed

text \<open>
  C5 at its failing input: a call is greeted, sixty frames are transcribed, the Language
  Provider replies, and the Synthesis Provider answers non-2xx.  \<^verbatim>\<open>elevenTTS\<close> returns
  without writing the mp3, the conversion of the missing file throws, and the \<^verbatim>\<open>catch\<close>
  only logs: the greeting stays the one message sent.  The start branch does send the tone
  when the greeting's synthesis answers non-2xx.
\<close>

theorem C5_synthesis_failure_in_pipeline_sends_nothing:
  "sent
     (run ([(\<lparr>now = 0, ffmpeg_fails = {}\<rparr>, Message (Start (Some ''MZ1''))),
            (\<lparr>now = 400, ffmpeg_fails = {}\<rparr>, Resume 0 Timer),
            (\<lparr>now = 900, ffmpeg_fails = {}\<rparr>, Resume 0 (Tts (TtsResp True ''greeting'')))] @
           replicate 60 (\<lparr>now = 4000, ffmpeg_fails = {}\<rparr>, Message (Media ''AA'')) @
           [(\<lparr>now = 5000, ffmpeg_fails = {}\<rparr>, Resume 0 (Stt (SttResp True (Some ''hello'')))),
            (\<lparr>now = 6000, ffmpeg_fails = {}\<rparr>, Resume 0 (Chat (ChatResp True (Some ''Hi Nick'')))),
            (\<lparr>now = 7000, ffmpeg_fails = {}\<rparr>, Resume 0 (Tts (TtsResp False ''quota exceeded'')))])
        (connection ''p'')) =
     [MediaOut (Some ''MZ1'') (Ffmpeg (Body ''greeting''))] \<and>
   sent
     (run [(\<lparr>now = 0, ffmpeg_fails = {}\<rparr>, Message (Start (Some ''MZ1''))),
           (\<lparr>now = 400, ffmpeg_fails = {}\<rparr>, Resume 0 Timer),
           (\<lparr>now = 900, ffmpeg_fails = {}\<rparr>, Resume 0 (Tts (TtsResp False ''quota exceeded'')))]
        (connection ''p'')) =
     [MediaOut (Some ''MZ1'') (Ffmpeg Sine)]"
  (is "sent (run (?G @ ?B1 @ ?R) ?c) = _ \<and> sent (run ?F ?c) = _")
proof -
  let ?g = "(connection ''p'')
     \<lparr>audioChunks := Some [], streamIds := Some ''MZ1'',
      sent := [MediaOut (Some ''MZ1'') (Ffmpeg (Body ''greeting''))],
      calls := [ElevenTTS ''Hey, this is Steve.'' (GreetMp3 0)],
      speakingUntil := Some (Finite 3400)\<rparr>"
  have g: "run ?G ?c = ?g"
    by (rule greeted)
  let ?w1 = "start_pipeline \<lparr>now = 4000, ffmpeg_fails = {}\<rparr> (replicate 60 (FromBase64 ''AA''))
      (?g\<lparr>audioChunks := Some []\<rparr>)"
  have b1: "run ?B1 ?g = ?w1"
    by (rule sixty_identical_frames) (simp_all add: muted_def buffered_def)
  have r: "run (?G @ ?B1 @ ?R) ?c = run ?R ?w1"
    by (simp only: run_append g b1)
  have pipeline: "sent (run (?G @ ?B1 @ ?R) ?c) =
      [MediaOut (Some ''MZ1'') (Ffmpeg (Body ''greeting''))]"
    unfolding r
    by (simp add: run_Cons run_Nil step_def start_pipeline_def ffmpeg_def
        pipeline_after_stt_def whisperSTT_result_def chatReply_push_def user_message_def
        assistant_message_def pipeline_after_chat_def chatReply_resume_def
        reply_or_default_def prune_eq pipeline_after_tts_def elevenTTS_resume_def
        unlink_all_def connection_def drop_task_def Let_def)
  have greeting: "sent (run ?F ?c) = [MediaOut (Some ''MZ1'') (Ffmpeg Sine)]"
    by (simp add: run_Cons run_Nil step_def on_message_def on_start_def greeting_resume_def
        elevenTTS_resume_def ffmpeg_def fallback_tone_def ffmpeg_sine_def unlink_all_def
        connection_def drop_task_def Let_def)
  show ?thesis
    using pipeline greeting by (rule conjI)
qed

section \<open>The same properties in the simpler variant\<close>

lemma basic_step_media: "basic_step (e, Message (Media p)) r = basic_on_media e p r"
  by (simp add: basic_step_def basic_on_message_def)

lemma basic_run_starts_regardless_of_runs_in_flight:
  "in_flight (basic_step (e, Message (Media payload)) r) =
     (if 59 \<le> length (buffered r) \<and> InWav (now e) \<notin> ffmpeg_fails e
      then Suc (in_flight r) else in_flight r)"
  by (simp add: basic_step_media basic_on_media_def Let_def in_flight_def start_pipeline_tasks)

lemma basic_chat_failure_speaks_default:
  assumes "k < length (tasks r)" and "tasks r ! k = PipeChat stamp"
  shows "basic_step (e, Resume k (Chat (ChatResp ok None))) r =
    r\<lparr>calls := calls r @ [ElevenTTS ''Sorry, I missed that.'' (OutMp3 stamp)],
      tasks := (tasks r)[k := PipeTTS stamp]\<rparr>"
  using assms
  by (simp add: basic_step_def basic_pipeline_after_chat_def basic_chatReply_resume_def
      reply_or_default_def)

lemma basic_empty_transcript_ends_the_run:
  assumes "k < length (tasks r)"
    and "tasks r ! k = PipeSTT stamp"
    and "text = None \<or> text = Some []"
  shows "basic_step (e, Resume k (Stt (SttResp ok text))) r = r\<lparr>tasks := drop_task k (tasks r)\<rparr>"
  using assms by (auto simp: basic_step_def basic_pipeline_after_stt_def whisperSTT_result_def)

lemma basic_media_below_threshold:
  assumes "length (buffered r) < 59"
  shows "basic_step (e, Message (Media p)) r = r\<lparr>audioChunks := Some (buffered r @ [FromBase64 p])\<rparr>"
  using assms by (simp add: basic_step_media basic_on_media_def Let_def)

lemma basic_threshold_flushes_buffer:
  assumes "length (buffered r) = 59"
  shows "audioChunks (basic_step (e, Message (Media p)) r) = Some [] \<and>
    files (basic_step (e, Message (Media p)) r) (InRaw (now e)) =
      Some (Concat (buffered r @ [FromBase64 p]))"
  using assms
  by (simp add: basic_step_media basic_on_media_def Let_def start_pipeline_audioChunks
      start_pipeline_raw_file)

lemma basic_fresh_connection_accepts_media:
  "basic_step (e, Message (Media p)) basic_connection =
     basic_connection\<lparr>audioChunks := Some [FromBase64 p]\<rparr>"
  by (simp add: basic_step_media basic_on_media_def Let_def basic_connection_def buffered_def)

end
